theory Spec2Isabelle
  imports Main
begin

section \<open>Python values and errors\<close>

text \<open>
  The helpers of \<^verbatim>\<open>bibt.gcp.scc\<close> are duck-typed: \<^verbatim>\<open>get_value\<close> and \<^verbatim>\<open>_get\<close> accept any
  Python value. The values that matter are modelled by one datatype: \<open>PyObject\<close> is an
  object given by the attributes that \<^verbatim>\<open>getattr\<close> finds on it (a protobuf message, say),
  \<open>PyDict\<close> a mapping with string keys, \<open>PyList\<close> a sequence, and \<open>PyMethod\<close> the
  bound method that \<^verbatim>\<open>getattr\<close> returns for a method name of a built-in type.
  An attribute value is data: callables stored by the user are not modelled.
\<close>

datatype pyobj =
    PyNone
  | PyInt int
  | PyStr string
  | PyList "pyobj list"
  | PyDict "(string \<times> pyobj) list"
  | PyObject "(string \<times> pyobj) list"
  | PyMethod string

text \<open>Every exception the modelled code can raise is a value; \<open>Inl\<close> carries it.\<close>

datatype pyerr =
    KeyError
  | IndexError
  | TypeError
  | AttributeError
  | ValueError
  | UnboundLocalError
  | OtherError string

text \<open>
  What the interpreter and the \<^verbatim>\<open>inflection\<close> package contribute is a parameter of the
  model: \<open>builtin_attr\<close> gives the attributes that \<^verbatim>\<open>getattr\<close> finds on a value of a
  built-in type (\<open>None\<close> stands for \<^verbatim>\<open>AttributeError\<close>), \<open>underscore\<close> and \<open>camelize\<close>
  are the two name conversions (\<open>camelize\<close> takes the flag
  \<^verbatim>\<open>uppercase_first_letter\<close> and may raise).
\<close>

record pyenv =
  builtin_attr :: "pyobj \<Rightarrow> string \<Rightarrow> pyobj option"
  underscore :: "string \<Rightarrow> string"
  camelize :: "string \<Rightarrow> bool \<Rightarrow> pyerr + string"

text \<open>\<^verbatim>\<open>getattr(obj, name)\<close>; \<open>None\<close> is \<^verbatim>\<open>AttributeError\<close>.\<close>

definition getattr :: "pyenv \<Rightarrow> pyobj \<Rightarrow> string \<Rightarrow> pyobj option" where
  "getattr env obj name =
     (case obj of PyObject attrs \<Rightarrow> map_of attrs name | _ \<Rightarrow> builtin_attr env obj name)"

text \<open>
  \<^verbatim>\<open>obj.get(attr)\<close>: \<^verbatim>\<open>dict.get\<close> on a mapping, which returns \<^verbatim>\<open>None\<close> for an absent
  key; \<^verbatim>\<open>AttributeError\<close> where the value has no attribute \<^verbatim>\<open>get\<close>; \<^verbatim>\<open>TypeError\<close> where
  the attribute \<^verbatim>\<open>get\<close> is data and cannot be called.
\<close>

definition call_get :: "pyenv \<Rightarrow> pyobj \<Rightarrow> string \<Rightarrow> pyerr + pyobj" where
  "call_get env obj attr =
     (case obj of
        PyDict kv \<Rightarrow> (case map_of kv attr of Some v \<Rightarrow> Inr v | None \<Rightarrow> Inr PyNone)
      | _ \<Rightarrow> (case getattr env obj ''get'' of
                None \<Rightarrow> Inl AttributeError
              | Some _ \<Rightarrow> Inl TypeError))"

definition has_get :: "pyenv \<Rightarrow> pyobj \<Rightarrow> bool" where
  "has_get env obj = (case obj of PyDict kv \<Rightarrow> True | _ \<Rightarrow> getattr env obj ''get'' \<noteq> None)"

text \<open>\<^verbatim>\<open>obj[0]\<close>.\<close>

definition subscript0 :: "pyobj \<Rightarrow> pyerr + pyobj" where
  "subscript0 obj =
     (case obj of
        PyList xs \<Rightarrow> (case xs of [] \<Rightarrow> Inl IndexError | x # _ \<Rightarrow> Inr x)
      | PyStr s \<Rightarrow> (case s of [] \<Rightarrow> Inl IndexError | c # _ \<Rightarrow> Inr (PyStr [c]))
      | PyDict kv \<Rightarrow> Inl KeyError
      | _ \<Rightarrow> Inl TypeError)"

text \<open>\<^verbatim>\<open>for x in obj\<close>: the elements in order, or \<^verbatim>\<open>TypeError\<close>.\<close>

definition py_iter :: "pyobj \<Rightarrow> pyerr + pyobj list" where
  "py_iter obj =
     (case obj of
        PyList xs \<Rightarrow> Inr xs
      | PyStr s \<Rightarrow> Inr (map (\<lambda>c. PyStr [c]) s)
      | PyDict kv \<Rightarrow> Inr (map PyStr (remdups (map fst kv)))
      | _ \<Rightarrow> Inl TypeError)"

text \<open>
  A list comprehension evaluates its elements from left to right and stops at the first
  exception.
\<close>

fun collect :: "(pyerr + 'a) list \<Rightarrow> pyerr + 'a list" where
  "collect [] = Inr []"
| "collect (r # rs) =
     (case r of
        Inl e \<Rightarrow> Inl e
      | Inr v \<Rightarrow> (case collect rs of Inl e \<Rightarrow> Inl e | Inr vs \<Rightarrow> Inr (v # vs)))"

section \<open>scc.py: \<^verbatim>\<open>_get\<close> and \<^verbatim>\<open>get_value\<close>\<close>

text \<open>
  \<^verbatim>\<open>_get(obj, attr)\<close>, named \<open>priv_get\<close> here: four \<^verbatim>\<open>try\<close> blocks in source order.
  The first three catch \<^verbatim>\<open>AttributeError\<close> only and go on to the next block; the
  third encloses the call of \<^verbatim>\<open>camelize\<close>. The fourth, \<open>priv_get_key\<close>, catches
  \<^verbatim>\<open>KeyError\<close> and \<^verbatim>\<open>AttributeError\<close> around \<^verbatim>\<open>obj.get(attr)\<close> and raises
  \<^verbatim>\<open>KeyError\<close> for both. Every other exception passes through.
\<close>

definition priv_get_key :: "pyenv \<Rightarrow> pyobj \<Rightarrow> string \<Rightarrow> pyerr + pyobj" where
  "priv_get_key env obj attr =
     (case call_get env obj attr of
        Inr v \<Rightarrow> Inr v
      | Inl e \<Rightarrow> if e = KeyError \<or> e = AttributeError then Inl KeyError else Inl e)"

definition priv_get :: "pyenv \<Rightarrow> pyobj \<Rightarrow> string \<Rightarrow> pyerr + pyobj" where
  "priv_get env obj attr =
     (case getattr env obj attr of
        Some v \<Rightarrow> Inr v
      | None \<Rightarrow>
     (case getattr env obj (underscore env attr) of
        Some v \<Rightarrow> Inr v
      | None \<Rightarrow>
     (case camelize env attr False of
        Inl e \<Rightarrow> if e = AttributeError then priv_get_key env obj attr else Inl e
      | Inr c \<Rightarrow>
     (case getattr env obj c of
        Some v \<Rightarrow> Inr v
      | None \<Rightarrow> priv_get_key env obj attr))))"

text \<open>\<^verbatim>\<open>path.partition(".")\<close>: the text before the first dot and the text after it.\<close>

definition partition_dot :: "string \<Rightarrow> string \<times> string" where
  "partition_dot path =
     (takeWhile (\<lambda>c. c \<noteq> CHR ''.'') path, drop 1 (dropWhile (\<lambda>c. c \<noteq> CHR ''.'') path))"

definition endswith :: "string \<Rightarrow> string \<Rightarrow> bool" where
  "endswith s suf = (length suf \<le> length s \<and> drop (length s - length suf) s = suf)"

text \<open>
  The marker test of \<^verbatim>\<open>get_value\<close>: the stripped name, \<^verbatim>\<open>grab_one\<close> and \<^verbatim>\<open>grab_all\<close>.
  The slices are the source's: \<^verbatim>\<open>attr[:-2]\<close> for \<^verbatim>\<open>[]\<close>, \<^verbatim>\<open>attr[:-2]\<close> for \<^verbatim>\<open>[0]\<close> and
  \<^verbatim>\<open>attr[:-3]\<close> for \<^verbatim>\<open>[*]\<close>.
\<close>

definition strip_marker :: "string \<Rightarrow> string \<times> bool \<times> bool" where
  "strip_marker attr =
     (if endswith attr ''[]'' then (take (length attr - 2) attr, True, False)
      else if endswith attr ''[0]'' then (take (length attr - 2) attr, True, False)
      else if endswith attr ''[*]'' then (take (length attr - 3) attr, False, True)
      else (attr, False, False))"

lemma partition_dot_shorter:
  "path \<noteq> [] \<Longrightarrow> length (snd (partition_dot path)) < length path"
proof -
  assume ne: "path \<noteq> []"
  have "length (dropWhile (\<lambda>c. c \<noteq> CHR ''.'') path) \<le> length path"
    by (rule length_dropWhile_le)
  moreover have "0 < length path"
    using ne by simp
  ultimately have "length (dropWhile (\<lambda>c. c \<noteq> CHR ''.'') path) - 1 < length path"
    by arith
  then show ?thesis
    by (simp add: partition_dot_def)
qed

function get_value :: "pyenv \<Rightarrow> pyobj \<Rightarrow> string \<Rightarrow> pyerr + pyobj" where
  "get_value env obj path =
     (if path = [] then Inr obj
      else
        (case priv_get env obj (fst (strip_marker (fst (partition_dot path)))) of
           Inl e \<Rightarrow> Inl e
         | Inr v \<Rightarrow>
             if fst (snd (strip_marker (fst (partition_dot path)))) then
               (case subscript0 v of
                  Inl e \<Rightarrow> Inl e
                | Inr w \<Rightarrow> get_value env w (snd (partition_dot path)))
             else if snd (snd (strip_marker (fst (partition_dot path)))) then
               (case py_iter v of
                  Inl e \<Rightarrow> Inl e
                | Inr xs \<Rightarrow>
                    (case collect (map (\<lambda>x. get_value env x (snd (partition_dot path))) xs) of
                       Inl e \<Rightarrow> Inl e
                     | Inr ys \<Rightarrow> Inr (PyList ys)))
             else get_value env v (snd (partition_dot path))))"
  by pat_completeness auto
termination
  by (relation "measure (\<lambda>(env, obj, path). length path)")
     (auto simp: partition_dot_shorter)

declare get_value.simps [simp del]


section \<open>A concrete interpreter: built-in attributes and \<^verbatim>\<open>inflection\<close>\<close>

text \<open>
  The general theorems below hold for every \<open>pyenv\<close>. Concrete runs use \<open>cpython\<close>:
  the public attributes of the built-in types \<^verbatim>\<open>dict\<close>, \<^verbatim>\<open>list\<close>, \<^verbatim>\<open>str\<close> and
  \<^verbatim>\<open>int\<close> (names with a leading underscore are left out), and the two conversions of
  the \<^verbatim>\<open>inflection\<close> package on ASCII names.
\<close>

definition dict_names :: "string list" where
  "dict_names = [''clear'', ''copy'', ''fromkeys'', ''get'', ''items'', ''keys'', ''pop'',
     ''popitem'', ''setdefault'', ''update'', ''values'']"

definition list_names :: "string list" where
  "list_names = [''append'', ''clear'', ''copy'', ''count'', ''extend'', ''index'',
     ''insert'', ''pop'', ''remove'', ''reverse'', ''sort'']"

definition str_names :: "string list" where
  "str_names = [''capitalize'', ''casefold'', ''center'', ''count'', ''encode'',
     ''endswith'', ''expandtabs'', ''find'', ''format'', ''format_map'', ''index'',
     ''isalnum'', ''isalpha'', ''isascii'', ''isdecimal'', ''isdigit'', ''isidentifier'',
     ''islower'', ''isnumeric'', ''isprintable'', ''isspace'', ''istitle'', ''isupper'',
     ''join'', ''ljust'', ''lower'', ''lstrip'', ''maketrans'', ''partition'',
     ''removeprefix'', ''removesuffix'', ''replace'', ''rfind'', ''rindex'', ''rjust'',
     ''rpartition'', ''rsplit'', ''rstrip'', ''split'', ''splitlines'', ''startswith'',
     ''strip'', ''swapcase'', ''title'', ''translate'', ''upper'', ''zfill'']"

definition int_names :: "string list" where
  "int_names = [''as_integer_ratio'', ''bit_count'', ''bit_length'', ''conjugate'',
     ''from_bytes'', ''to_bytes'']"

definition cpython_attr :: "pyobj \<Rightarrow> string \<Rightarrow> pyobj option" where
  "cpython_attr obj name =
     (case obj of
        PyDict kv \<Rightarrow> if name \<in> set dict_names then Some (PyMethod name) else None
      | PyList xs \<Rightarrow> if name \<in> set list_names then Some (PyMethod name) else None
      | PyStr s \<Rightarrow> if name \<in> set str_names then Some (PyMethod name) else None
      | PyInt n \<Rightarrow>
          if name = ''real'' \<or> name = ''numerator'' then Some (PyInt n)
          else if name = ''imag'' then Some (PyInt 0)
          else if name = ''denominator'' then Some (PyInt 1)
          else if name \<in> set int_names then Some (PyMethod name)
          else None
      | _ \<Rightarrow> None)"

definition upper_letters :: string where
  "upper_letters = ''ABCDEFGHIJKLMNOPQRSTUVWXYZ''"

definition lower_letters :: string where
  "lower_letters = ''abcdefghijklmnopqrstuvwxyz''"

definition is_upper :: "char \<Rightarrow> bool" where
  "is_upper c = (c \<in> set upper_letters)"

definition is_lower :: "char \<Rightarrow> bool" where
  "is_lower c = (c \<in> set lower_letters)"

definition is_digit :: "char \<Rightarrow> bool" where
  "is_digit c = (c \<in> set ''0123456789'')"

definition to_lower :: "char \<Rightarrow> char" where
  "to_lower c = (case map_of (zip upper_letters lower_letters) c of Some l \<Rightarrow> l | None \<Rightarrow> c)"

definition to_upper :: "char \<Rightarrow> char" where
  "to_upper c = (case map_of (zip lower_letters upper_letters) c of Some u \<Rightarrow> u | None \<Rightarrow> c)"

text \<open>
  \<^verbatim>\<open>re.sub(r"([A-Z]+)([A-Z][a-z])", r"\1_\2", word)\<close>: an underscore goes before a
  capital that follows a capital and precedes a small letter. The flag says whether the
  character before was a capital.
\<close>

fun split_acronym :: "bool \<Rightarrow> string \<Rightarrow> string" where
  "split_acronym prev [] = []"
| "split_acronym prev (c # cs) =
     (if prev \<and> is_upper c \<and> (case cs of [] \<Rightarrow> False | d # _ \<Rightarrow> is_lower d)
      then CHR ''_'' # c # split_acronym (is_upper c) cs
      else c # split_acronym (is_upper c) cs)"

text \<open>
  \<^verbatim>\<open>re.sub(r"([a-z\d])([A-Z])", r"\1_\2", word)\<close>: an underscore goes between a small
  letter or digit and a capital.
\<close>

fun split_words :: "string \<Rightarrow> string" where
  "split_words [] = []"
| "split_words [c] = [c]"
| "split_words (c # d # cs) =
     (if (is_lower c \<or> is_digit c) \<and> is_upper d
      then c # CHR ''_'' # split_words (d # cs)
      else c # split_words (d # cs))"

definition inflection_underscore :: "string \<Rightarrow> string" where
  "inflection_underscore word =
     map to_lower
       (map (\<lambda>c. if c = CHR ''-'' then CHR ''_'' else c)
          (split_words (split_acronym False word)))"

text \<open>
  \<^verbatim>\<open>re.sub(r"(?:^|_)(.)", lambda m: m.group(1).upper(), string)\<close>: the first
  character, and every character after an underscore (which is dropped), is made a
  capital; the dot of the pattern does not match a line feed.
\<close>

fun camelize_rest :: "string \<Rightarrow> string" where
  "camelize_rest [] = []"
| "camelize_rest [c] = [c]"
| "camelize_rest (c # d # cs) =
     (if c = CHR ''_'' \<and> d \<noteq> CHR 0x0A then to_upper d # camelize_rest cs
      else c # camelize_rest (d # cs))"

definition camelize_upper :: "string \<Rightarrow> string" where
  "camelize_upper s =
     (case s of
        [] \<Rightarrow> []
      | c # cs \<Rightarrow> if c \<noteq> CHR 0x0A then to_upper c # camelize_rest cs else camelize_rest s)"

text \<open>
  \<^verbatim>\<open>camelize(string, uppercase_first_letter)\<close>; with the flag off it is
  \<^verbatim>\<open>string[0].lower() + camelize(string)[1:]\<close>, which raises \<^verbatim>\<open>IndexError\<close> on the
  empty string.
\<close>

definition inflection_camelize :: "string \<Rightarrow> bool \<Rightarrow> pyerr + string" where
  "inflection_camelize s uppercase_first_letter =
     (if uppercase_first_letter then Inr (camelize_upper s)
      else (case s of
              [] \<Rightarrow> Inl IndexError
            | c # _ \<Rightarrow> Inr (to_lower c # drop 1 (camelize_upper s))))"

definition cpython :: pyenv where
  "cpython = \<lparr>builtin_attr = cpython_attr,
              underscore = inflection_underscore,
              camelize = inflection_camelize\<rparr>"


section \<open>classes.py: \<^verbatim>\<open>FindingParentInfo\<close>\<close>

text \<open>
  The asset that \<^verbatim>\<open>get_asset\<close> returns, with the fields \<^verbatim>\<open>FindingParentInfo\<close> reads.
  \<open>resource_properties\<close> is a mapping with string keys. \<open>policy_blob\<close> is a JSON text in
  the source; it is held here as what \<^verbatim>\<open>json.loads\<close> makes of it, the decoded value or
  the exception.
\<close>

record security_center_properties =
  resource_type :: string
  resource_parent :: string
  resource_display_name :: string
  resource_name :: string
  resource_owners :: "string list"

record iam_policy =
  policy_blob :: "pyerr + pyobj"

record asset =
  security_center_properties :: security_center_properties
  resource_properties :: "(string \<times> pyobj) list"
  iam_policy :: iam_policy

text \<open>\<^verbatim>\<open>m.get(key)\<close> on a mapping: the value, or \<^verbatim>\<open>None\<close>.\<close>

definition dict_get :: "(string \<times> pyobj) list \<Rightarrow> string \<Rightarrow> pyobj" where
  "dict_get kv key = (case map_of kv key of Some v \<Rightarrow> v | None \<Rightarrow> PyNone)"

text \<open>\<^verbatim>\<open>s.split(sep)\<close> for a separator of one character.\<close>

fun split_on :: "char \<Rightarrow> string \<Rightarrow> string list" where
  "split_on sep [] = [[]]"
| "split_on sep (c # cs) =
     (if c = sep then [] # split_on sep cs
      else (case split_on sep cs of [] \<Rightarrow> [[c]] | w # ws \<Rightarrow> (c # w) # ws))"

text \<open>Truth value of an object in a condition.\<close>

definition truthy :: "pyobj \<Rightarrow> bool" where
  "truthy obj =
     (case obj of
        PyNone \<Rightarrow> False
      | PyInt n \<Rightarrow> n \<noteq> 0
      | PyStr s \<Rightarrow> s \<noteq> []
      | PyList xs \<Rightarrow> xs \<noteq> []
      | PyDict kv \<Rightarrow> kv \<noteq> []
      | _ \<Rightarrow> True)"

text \<open>\<^verbatim>\<open>obj[key]\<close> for a string key.\<close>

definition subscript_key :: "pyobj \<Rightarrow> string \<Rightarrow> pyerr + pyobj" where
  "subscript_key obj key =
     (case obj of
        PyDict kv \<Rightarrow> (case map_of kv key of Some v \<Rightarrow> Inr v | None \<Rightarrow> Inl KeyError)
      | _ \<Rightarrow> Inl TypeError)"

text \<open>
  A local variable of a Python function is \<open>None\<close> until its first assignment; reading it
  before raises \<^verbatim>\<open>UnboundLocalError\<close>.
\<close>

definition read_local :: "'a option \<Rightarrow> pyerr + 'a" where
  "read_local var = (case var of None \<Rightarrow> Inl UnboundLocalError | Some v \<Rightarrow> Inr v)"

definition owner_roles :: "string list" where
  "owner_roles = [''roles/resourcemanager.folderAdmin'', ''roles/owner'']"

text \<open>
  The loop over the bindings in \<^verbatim>\<open>_extract_parent_info_folder\<close>, with the local
  \<^verbatim>\<open>owners\<close> threaded through. \<^verbatim>\<open>owners.extend(binding["members"])\<close> reads \<^verbatim>\<open>owners\<close>
  first, then evaluates the argument, then iterates over it.
\<close>

fun folder_bindings :: "pyobj list \<Rightarrow> pyobj list option \<Rightarrow> pyerr + pyobj list option" where
  "folder_bindings [] owners = Inr owners"
| "folder_bindings (binding # rest) owners =
     (case subscript_key binding ''role'' of
        Inl e \<Rightarrow> Inl e
      | Inr role \<Rightarrow>
          if role \<in> set (map PyStr owner_roles) then
            (case read_local owners of
               Inl e \<Rightarrow> Inl e
             | Inr os \<Rightarrow>
                 (case subscript_key binding ''members'' of
                    Inl e \<Rightarrow> Inl e
                  | Inr members \<Rightarrow>
                      (case py_iter members of
                         Inl e \<Rightarrow> Inl e
                       | Inr ms \<Rightarrow> folder_bindings rest (Some (os @ ms)))))
          else folder_bindings rest owners)"

text \<open>
  \<^verbatim>\<open>list(set(owners))\<close>: the distinct members (in an order the language leaves open;
  the first occurrences are kept here); a list or a mapping among them cannot be hashed.
\<close>

definition hashable :: "pyobj \<Rightarrow> bool" where
  "hashable obj = (case obj of PyList xs \<Rightarrow> False | PyDict kv \<Rightarrow> False | _ \<Rightarrow> True)"

definition list_of_set :: "pyobj list \<Rightarrow> pyerr + pyobj list" where
  "list_of_set os = (if list_all hashable os then Inr (remdups os) else Inl TypeError)"

definition extract_parent_info_project :: "asset \<Rightarrow> pyerr + pyobj \<times> pyobj list" where
  "extract_parent_info_project asset =
     Inr (dict_get (resource_properties asset) ''projectNumber'',
          map PyStr (resource_owners (security_center_properties asset)))"

text \<open>
  \<^verbatim>\<open>_extract_parent_info_folder\<close>. The function assigns \<^verbatim>\<open>owners\<close> (line 215), so the
  name is local to it, and no assignment comes before the loop: \<^verbatim>\<open>owners\<close> starts
  unbound.
\<close>

definition folder_id_num :: "asset \<Rightarrow> pyerr + pyobj" where
  "folder_id_num asset =
     (if ''folderId'' \<in> set (map fst (resource_properties asset))
      then Inr (dict_get (resource_properties asset) ''folderId'')
      else (case dict_get (resource_properties asset) ''name'' of
              PyStr s \<Rightarrow>
                (case split_on CHR ''/'' s of
                   _ # x # _ \<Rightarrow> Inr (PyStr x)
                 | _ \<Rightarrow> Inl IndexError)
            | _ \<Rightarrow> Inl AttributeError))"

definition extract_parent_info_folder :: "asset \<Rightarrow> pyerr + pyobj \<times> pyobj list" where
  "extract_parent_info_folder asset =
     (case folder_id_num asset of
        Inl e \<Rightarrow> Inl e
      | Inr id_num \<Rightarrow>
     (case policy_blob (iam_policy asset) of
        Inl e \<Rightarrow> Inl e
      | Inr doc \<Rightarrow>
     (case (case doc of PyDict kv \<Rightarrow> Inr (dict_get kv ''bindings'') | _ \<Rightarrow> Inl AttributeError) of
        Inl e \<Rightarrow> Inl e
      | Inr iam_bindings \<Rightarrow>
     (case (if truthy iam_bindings then
              (case py_iter iam_bindings of
                 Inl e \<Rightarrow> Inl e
               | Inr bindings \<Rightarrow>
                   (case folder_bindings bindings None of
                      Inl e \<Rightarrow> Inl e
                    | Inr owners \<Rightarrow>
                        (case read_local owners of
                           Inl e \<Rightarrow> Inl e
                         | Inr os \<Rightarrow>
                             (case list_of_set os of
                                Inl e \<Rightarrow> Inl e
                              | Inr ds \<Rightarrow> Inr (Some ds)))))
            else Inr None) of
        Inl e \<Rightarrow> Inl e
      | Inr owners \<Rightarrow>
     (case read_local owners of
        Inl e \<Rightarrow> Inl e
      | Inr os \<Rightarrow> Inr (id_num, os))))))"

definition extract_parent_info_org :: "asset \<Rightarrow> pyerr + pyobj \<times> pyobj list" where
  "extract_parent_info_org asset =
     Inr (dict_get (resource_properties asset) ''organizationId'', [])"

definition parent_types :: "string list" where
  "parent_types = [''google.cloud.resourcemanager.Project'',
     ''google.cloud.resourcemanager.Folder'',
     ''google.cloud.resourcemanager.Organization'']"

text \<open>
  The \<^verbatim>\<open>while\<close> loop of \<^verbatim>\<open>_get_parent_info\<close> (lines 164 to 169). \<open>get_asset\<close> is the
  lookup of \<^verbatim>\<open>scc.py\<close>, which queries the service and raises \<^verbatim>\<open>ValueError\<close> when no
  asset has the name: a parameter here. The loop has no bound, so the result is an option:
  \<open>None\<close> when it does not return.
\<close>

partial_function (option) climb ::
  "(string \<Rightarrow> string \<Rightarrow> pyerr + asset) \<Rightarrow> string \<Rightarrow> asset \<Rightarrow> (pyerr + asset) option" where
  "climb get_asset gcp_org_id a =
     (if resource_type (security_center_properties a) \<in> set parent_types then Some (Inr a)
      else (case get_asset (resource_parent (security_center_properties a)) gcp_org_id of
              Inl e \<Rightarrow> Some (Inl e)
            | Inr a' \<Rightarrow> climb get_asset gcp_org_id a'))"

text \<open>The same loop cut off after \<open>n\<close> lookups of a parent.\<close>

fun climb_within :: "nat \<Rightarrow> (string \<Rightarrow> string \<Rightarrow> pyerr + asset) \<Rightarrow> string \<Rightarrow> asset \<Rightarrow>
    (pyerr + asset) option" where
  "climb_within 0 get_asset gcp_org_id a =
     (if resource_type (security_center_properties a) \<in> set parent_types then Some (Inr a)
      else None)"
| "climb_within (Suc n) get_asset gcp_org_id a =
     (if resource_type (security_center_properties a) \<in> set parent_types then Some (Inr a)
      else (case get_asset (resource_parent (security_center_properties a)) gcp_org_id of
              Inl e \<Rightarrow> Some (Inl e)
            | Inr a' \<Rightarrow> climb_within n get_asset gcp_org_id a'))"

text \<open>
  \<^verbatim>\<open>_get_parent_info\<close>: the tuple of display name, type, resource name, id and owners.
\<close>

definition get_parent_info ::
  "(string \<Rightarrow> string \<Rightarrow> pyerr + asset) \<Rightarrow> string \<Rightarrow> string \<Rightarrow>
     (pyerr + string \<times> string \<times> string \<times> pyobj \<times> pyobj list) option" where
  "get_parent_info get_asset resource gcp_org_id =
     (case get_asset resource gcp_org_id of
        Inl e \<Rightarrow> Some (Inl e)
      | Inr a0 \<Rightarrow>
     (case climb get_asset gcp_org_id a0 of
        None \<Rightarrow> None
      | Some (Inl e) \<Rightarrow> Some (Inl e)
      | Some (Inr a) \<Rightarrow>
          Some
           (case (if resource_type (security_center_properties a) =
                       ''google.cloud.resourcemanager.Project''
                  then extract_parent_info_project a
                  else if resource_type (security_center_properties a) =
                       ''google.cloud.resourcemanager.Folder''
                  then extract_parent_info_folder a
                  else extract_parent_info_org a) of
              Inl e \<Rightarrow> Inl e
            | Inr (id_num, owners) \<Rightarrow>
                Inr (resource_display_name (security_center_properties a),
                     resource_type (security_center_properties a),
                     resource_name (security_center_properties a),
                     id_num,
                     owners))))"

text \<open>
  \<^verbatim>\<open>FindingParentInfo.__init__\<close>: the object built from the tuple. A \<^verbatim>\<open>ValueError\<close> is
  logged and raised again; every other exception passes through.
\<close>

record FindingParentInfo =
  displayName :: string
  type_ :: string
  resourceName :: string
  idNum :: pyobj
  owners :: "pyobj list"

definition FindingParentInfo_init ::
  "(string \<Rightarrow> string \<Rightarrow> pyerr + asset) \<Rightarrow> string \<Rightarrow> string \<Rightarrow>
     (pyerr + FindingParentInfo) option" where
  "FindingParentInfo_init get_asset resource gcp_org_id =
     (case get_parent_info get_asset resource gcp_org_id of
        None \<Rightarrow> None
      | Some (Inl e) \<Rightarrow> if e = ValueError then Some (Inl ValueError) else Some (Inl e)
      | Some (Inr (dn, ty, rn, idn, ows)) \<Rightarrow>
          Some (Inr \<lparr>displayName = dn, type_ = ty, resourceName = rn, idNum = idn,
                     owners = ows\<rparr>))"


section \<open>Example records and hierarchies\<close>

definition folders_record :: pyobj where
  "folders_record = PyDict [(''a'', PyList [PyDict [(''b'', PyInt 1)], PyDict [(''b'', PyInt 2)]])]"

definition named_record :: pyobj where
  "named_record = PyDict [(''name'', PyStr ''vm-1'')]"

definition project_asset :: asset where
  "project_asset =
     \<lparr>security_center_properties =
        \<lparr>resource_type = ''google.cloud.resourcemanager.Project'',
         resource_parent = ''//cloudresourcemanager.googleapis.com/folders/456'',
         resource_display_name = ''my-project'',
         resource_name = ''//cloudresourcemanager.googleapis.com/projects/123456'',
         resource_owners = [''user:alice@example.com'', ''user:bob@example.com'']\<rparr>,
      resource_properties = [(''projectId'', PyStr ''my-project''),
                             (''projectNumber'', PyInt 123456)],
      iam_policy = \<lparr>policy_blob = Inr (PyDict [])\<rparr>\<rparr>"

definition folder_asset :: asset where
  "folder_asset =
     \<lparr>security_center_properties =
        \<lparr>resource_type = ''google.cloud.resourcemanager.Folder'',
         resource_parent = ''//cloudresourcemanager.googleapis.com/organizations/1'',
         resource_display_name = ''my-folder'',
         resource_name = ''//cloudresourcemanager.googleapis.com/folders/456'',
         resource_owners = []\<rparr>,
      resource_properties = [(''folderId'', PyStr ''456'')],
      iam_policy =
        \<lparr>policy_blob = Inr (PyDict [(''bindings'', PyList
           [PyDict [(''role'', PyStr ''roles/resourcemanager.folderAdmin''),
                    (''members'', PyList [PyStr ''alice'', PyStr ''bob''])],
            PyDict [(''role'', PyStr ''roles/owner''),
                    (''members'', PyList [PyStr ''bob'', PyStr ''carol''])]])])\<rparr>\<rparr>"

definition instance_asset :: "string \<Rightarrow> asset" where
  "instance_asset parent =
     \<lparr>security_center_properties =
        \<lparr>resource_type = ''google.compute.Instance'',
         resource_parent = parent,
         resource_display_name = ''vm-1'',
         resource_name = ''//compute.googleapis.com/projects/p/zones/z/instances/vm-1'',
         resource_owners = []\<rparr>,
      resource_properties = [],
      iam_policy = \<lparr>policy_blob = Inr (PyDict [])\<rparr>\<rparr>"

text \<open>
  A lookup service that knows the given assets by their resource names and raises
  \<^verbatim>\<open>ValueError\<close> for every other name, as \<^verbatim>\<open>get_asset\<close> does.
\<close>

definition lookup_in :: "asset list \<Rightarrow> string \<Rightarrow> string \<Rightarrow> pyerr + asset" where
  "lookup_in assets name gcp_org_id =
     (case find (\<lambda>a. resource_name (security_center_properties a) = name) assets of
        Some a \<Rightarrow> Inr a
      | None \<Rightarrow> Inl ValueError)"


section \<open>Facts about the helpers\<close>

lemmas run_defs =
  priv_get_def priv_get_key_def getattr_def call_get_def has_get_def cpython_def
  cpython_attr_def strip_marker_def endswith_def partition_dot_def
  inflection_underscore_def inflection_camelize_def camelize_upper_def subscript0_def
  py_iter_def dict_names_def list_names_def str_names_def int_names_def is_upper_def
  is_lower_def is_digit_def to_lower_def to_upper_def upper_letters_def lower_letters_def
  get_value.simps

lemma partition_dot_plain:
  "CHR ''.'' \<notin> set f \<Longrightarrow> partition_dot f = (f, [])"
  by (induction f) (auto simp: partition_dot_def)

lemma partition_dot_dotted:
  "CHR ''.'' \<notin> set f \<Longrightarrow> partition_dot (f @ CHR ''.'' # rest) = (f, rest)"
  by (induction f) (auto simp: partition_dot_def)

lemma strip_marker_first: "strip_marker (f @ ''[]'') = (f, True, False)"
  by (simp add: strip_marker_def endswith_def)

lemma strip_marker_all: "strip_marker (f @ ''[*]'') = (f, False, True)"
  by (simp add: strip_marker_def endswith_def)

lemma strip_marker_zero: "strip_marker (f @ ''[0]'') = (f @ ''['', True, False)"
  by (simp add: strip_marker_def endswith_def)

lemma collect_map_Inr: "collect (map Inr xs) = Inr xs"
  by (induction xs) simp_all

lemma collect_Inr_D: "collect rs = Inr ys \<Longrightarrow> rs = map Inr ys"
proof (induction rs arbitrary: ys)
  case Nil
  then show ?case by simp
next
  case (Cons r rs)
  then show ?case by (auto split: sum.splits)
qed

lemma get_value_Nil: "get_value env obj [] = Inr obj"
  by (simp add: get_value.simps)

text \<open>One step of \<^verbatim>\<open>get_value\<close> on a segment that ends in \<^verbatim>\<open>[]\<close>.\<close>

lemma get_value_first:
  assumes "CHR ''.'' \<notin> set f" and "priv_get env r f = Inr v"
  shows "get_value env r (f @ ''[]'') =
           (case subscript0 v of Inl e \<Rightarrow> Inl e | Inr w \<Rightarrow> Inr w)"
    and "get_value env r (f @ ''[].'' @ rest) =
           (case subscript0 v of Inl e \<Rightarrow> Inl e | Inr w \<Rightarrow> get_value env w rest)"
proof -
  have nd: "CHR ''.'' \<notin> set (f @ ''[]'')"
    using assms(1) by simp
  show "get_value env r (f @ ''[]'') =
          (case subscript0 v of Inl e \<Rightarrow> Inl e | Inr w \<Rightarrow> Inr w)"
    using assms(2) partition_dot_plain[OF nd]
    by (subst get_value.simps)
       (simp add: strip_marker_first get_value_Nil split: sum.splits)
  have "f @ ''[].'' @ rest = (f @ ''[]'') @ CHR ''.'' # rest"
    by simp
  then show "get_value env r (f @ ''[].'' @ rest) =
          (case subscript0 v of Inl e \<Rightarrow> Inl e | Inr w \<Rightarrow> get_value env w rest)"
    using assms(2) partition_dot_dotted[OF nd, of rest]
    by (subst get_value.simps) (simp add: strip_marker_first split: sum.splits)
qed

text \<open>
  One step on a segment that ends in \<^verbatim>\<open>[0]\<close>: the name looked up is the field name
  with an opening bracket left on it.
\<close>

lemma get_value_zero:
  assumes "CHR ''.'' \<notin> set f"
  shows "get_value env r (f @ ''[0].'' @ rest) =
           (case priv_get env r (f @ ''['') of
              Inl e \<Rightarrow> Inl e
            | Inr v \<Rightarrow> (case subscript0 v of Inl e \<Rightarrow> Inl e | Inr w \<Rightarrow> get_value env w rest))"
proof -
  have nd: "CHR ''.'' \<notin> set (f @ ''[0]'')"
    using assms by simp
  have "f @ ''[0].'' @ rest = (f @ ''[0]'') @ CHR ''.'' # rest"
    by simp
  then show ?thesis
    using partition_dot_dotted[OF nd, of rest]
    by (subst get_value.simps) (simp add: strip_marker_zero split: sum.splits)
qed

text \<open>One step on a segment that ends in \<^verbatim>\<open>[*]\<close>.\<close>

lemma get_value_all:
  assumes "CHR ''.'' \<notin> set f" and "priv_get env r f = Inr v"
  shows "get_value env r (f @ ''[*]'') =
           (case py_iter v of Inl e \<Rightarrow> Inl e | Inr xs \<Rightarrow> Inr (PyList xs))"
    and "get_value env r (f @ ''[*].'' @ rest) =
           (case py_iter v of
              Inl e \<Rightarrow> Inl e
            | Inr xs \<Rightarrow>
                (case collect (map (\<lambda>x. get_value env x rest) xs) of
                   Inl e \<Rightarrow> Inl e
                 | Inr ys \<Rightarrow> Inr (PyList ys)))"
proof -
  have nd: "CHR ''.'' \<notin> set (f @ ''[*]'')"
    using assms(1) by simp
  show "get_value env r (f @ ''[*]'') =
          (case py_iter v of Inl e \<Rightarrow> Inl e | Inr xs \<Rightarrow> Inr (PyList xs))"
    using assms(2) partition_dot_plain[OF nd]
    by (subst get_value.simps)
       (simp add: strip_marker_all get_value_Nil collect_map_Inr split: sum.splits)
  have "f @ ''[*].'' @ rest = (f @ ''[*]'') @ CHR ''.'' # rest"
    by simp
  then show "get_value env r (f @ ''[*].'' @ rest) =
          (case py_iter v of
             Inl e \<Rightarrow> Inl e
           | Inr xs \<Rightarrow>
               (case collect (map (\<lambda>x. get_value env x rest) xs) of
                  Inl e \<Rightarrow> Inl e
                | Inr ys \<Rightarrow> Inr (PyList ys)))"
    using assms(2) partition_dot_dotted[OF nd, of rest]
    by (subst get_value.simps) (simp add: strip_marker_all split: sum.splits)
qed

text \<open>One step on a segment without a marker.\<close>

lemma get_value_plain:
  assumes "CHR ''.'' \<notin> set g" and "strip_marker g = (g, False, False)" and "g \<noteq> []"
    and "priv_get env r g = Inr v"
  shows "get_value env r g = Inr v"
    and "get_value env r (g @ CHR ''.'' # rest) = get_value env v rest"
proof -
  show "get_value env r g = Inr v"
    using assms partition_dot_plain[OF assms(1)]
    by (subst get_value.simps) (simp add: get_value_Nil)
  show "get_value env r (g @ CHR ''.'' # rest) = get_value env v rest"
    using assms partition_dot_dotted[OF assms(1), of rest]
    by (subst get_value.simps) simp
qed

text \<open>The bounded loop and the loop agree wherever either returns.\<close>

lemma climb_within_climb:
  "climb_within n get_asset gcp_org_id a = Some r \<Longrightarrow> climb get_asset gcp_org_id a = Some r"
proof (induction n arbitrary: a)
  case 0
  then show ?case
    by (subst climb.simps) (simp split: if_splits)
next
  case (Suc n)
  then show ?case
    by (subst climb.simps) (auto split: if_splits sum.splits)
qed

lemma climb_climb_within:
  assumes "climb get_asset gcp_org_id a = Some r"
  shows "\<exists>n. climb_within n get_asset gcp_org_id a = Some r"
proof (rule climb.raw_induct
    [where P = "\<lambda>g org a r. \<exists>n. climb_within n g org a = Some r", OF _ assms])
  fix climb' :: "(string \<Rightarrow> string \<Rightarrow> pyerr + asset) \<Rightarrow> string \<Rightarrow> asset \<Rightarrow>
      (pyerr + asset) option"
  fix g :: "string \<Rightarrow> string \<Rightarrow> pyerr + asset" and org :: string and a :: asset
    and r :: "pyerr + asset"
  assume IH: "\<And>g org a r. climb' g org a = Some r \<Longrightarrow>
      \<exists>n. climb_within n g org a = Some r"
  assume step: "(if resource_type (security_center_properties a) \<in> set parent_types
      then Some (Inr a)
      else (case g (resource_parent (security_center_properties a)) org of
              Inl e \<Rightarrow> Some (Inl e)
            | Inr a' \<Rightarrow> climb' g org a')) = Some r"
  show "\<exists>n. climb_within n g org a = Some r"
  proof (cases "resource_type (security_center_properties a) \<in> set parent_types")
    case True
    with step have "climb_within 0 g org a = Some r"
      by simp
    then show ?thesis ..
  next
    case False
    show ?thesis
    proof (cases "g (resource_parent (security_center_properties a)) org")
      case (Inl e)
      with False step have "climb_within (Suc 0) g org a = Some r"
        by auto
      then show ?thesis ..
    next
      case (Inr a')
      with False step have "climb' g org a' = Some r"
        by simp
      then obtain n where "climb_within n g org a' = Some r"
        using IH by blast
      with False Inr have "climb_within (Suc n) g org a = Some r"
        by simp
      then show ?thesis ..
    qed
  qed
qed

lemma climb_within_error_origin:
  "climb_within n get_asset gcp_org_id a = Some (Inl e) \<Longrightarrow>
     \<exists>name. get_asset name gcp_org_id = Inl e"
proof (induction n arbitrary: a)
  case 0
  then show ?case by (simp split: if_splits)
next
  case (Suc n)
  then show ?case by (auto split: if_splits sum.splits)
qed

lemma climb_within_parent_type:
  "climb_within n get_asset gcp_org_id a = Some (Inr b) \<Longrightarrow>
     resource_type (security_center_properties b) \<in> set parent_types"
proof (induction n arbitrary: a)
  case 0
  then show ?case by (simp split: if_splits)
next
  case (Suc n)
  then show ?case by (auto split: if_splits sum.splits)
qed

text \<open>
  In \<^verbatim>\<open>_extract_parent_info_folder\<close> the local \<^verbatim>\<open>owners\<close> is never bound when the loop
  over the bindings ends normally, and so the function never returns a value.
\<close>

lemma folder_bindings_unbound:
  "folder_bindings bindings None = Inr os \<Longrightarrow> os = None"
  by (induction bindings)
     (auto simp: read_local_def split: sum.splits if_splits)

lemma extract_parent_info_folder_raises:
  "extract_parent_info_folder asset \<noteq> Inr result"
  by (auto simp: extract_parent_info_folder_def read_local_def
           split: sum.splits if_splits option.splits pyobj.splits
           dest: folder_bindings_unbound)


section \<open>The claims\<close>

subsection \<open>Path resolution\<close>

text \<open>
  Claim C6. Resolving the empty path returns the record itself, unchanged, for every
  record.
\<close>

theorem empty_path_identity: "get_value env r '''' = Inr r"
  by (simp add: get_value.simps)

text \<open>
  Claim C1. The claim says that the markers \<^verbatim>\<open>[0]\<close> and \<^verbatim>\<open>[]\<close> are interchangeable:
  both take the first element of the field. The source strips two characters for each of
  them, and \<^verbatim>\<open>[0]\<close> has three, so a segment \<^verbatim>\<open>a[0]\<close> looks up the name \<^verbatim>\<open>a[\<close>. On the
  record \<^verbatim>\<open>{"a": [{"b": 1}, {"b": 2}]}\<close> the path \<^verbatim>\<open>a[].b\<close> gives 1, which is what
  \<^verbatim>\<open>b\<close> gives on the first element, and \<^verbatim>\<open>a[0].b\<close> raises \<^verbatim>\<open>TypeError\<close>: the mapping
  answers \<^verbatim>\<open>None\<close> for the key \<^verbatim>\<open>a[\<close>, and \<^verbatim>\<open>None[0]\<close> fails. On an object with the
  attribute \<^verbatim>\<open>a\<close> it raises \<^verbatim>\<open>KeyError\<close>.
\<close>

theorem zero_marker_keeps_bracket:
  "get_value cpython folders_record ''a[].b'' = Inr (PyInt 1) \<and>
   get_value cpython (PyDict [(''b'', PyInt 1)]) ''b'' = Inr (PyInt 1) \<and>
   get_value cpython folders_record ''a[0].b'' = Inl TypeError \<and>
   get_value cpython (PyObject [(''a'', PyList [PyDict [(''b'', PyInt 1)]])]) ''a[].b'' =
     Inr (PyInt 1) \<and>
   get_value cpython (PyObject [(''a'', PyList [PyDict [(''b'', PyInt 1)]])]) ''a[0].b'' =
     Inl KeyError"
  by (simp add: run_defs folders_record_def)

text \<open>
  Claim C4. Let the field \<open>f\<close> of the record \<open>r\<close> be the sequence \<open>xs\<close>. Resolving
  \<open>f[*].rest\<close> returns a value exactly when every element resolves \<open>rest\<close>, and the
  value is then the sequence of those results: as long as \<open>xs\<close>, its i-th element
  being what \<open>rest\<close> resolves to on the i-th element of \<open>xs\<close>. Resolving \<open>f[*]\<close> returns
  the elements of \<open>xs\<close> unchanged.
\<close>

theorem fan_out_elementwise:
  assumes "CHR ''.'' \<notin> set f" and "priv_get env r f = Inr (PyList xs)"
  shows "((get_value env r (f @ ''[*].'' @ rest) = Inr v) =
            (\<exists>ys. v = PyList ys \<and> length ys = length xs \<and>
                  (\<forall>i<length xs. get_value env (xs ! i) rest = Inr (ys ! i)))) \<and>
         get_value env r (f @ ''[*]'') = Inr (PyList xs)"
proof -
  have eq: "(map (\<lambda>x. get_value env x rest) xs = map Inr ys) =
      (length ys = length xs \<and>
       (\<forall>i<length xs. get_value env (xs ! i) rest = Inr (ys ! i)))" for ys
    by (auto simp: list_eq_iff_nth_eq)
  have "(get_value env r (f @ ''[*].'' @ rest) = Inr v) =
          (\<exists>ys. v = PyList ys \<and> map (\<lambda>x. get_value env x rest) xs = map Inr ys)"
    unfolding get_value_all(2)[OF assms]
    by (auto simp: py_iter_def collect_map_Inr split: sum.splits dest: collect_Inr_D)
  moreover have "get_value env r (f @ ''[*]'') = Inr (PyList xs)"
    unfolding get_value_all(1)[OF assms] by (simp add: py_iter_def)
  ultimately show ?thesis
    by (simp add: eq)
qed

theorem fan_out_elementwise_witness:
  "CHR ''.'' \<notin> set ''a'' \<and>
   priv_get cpython folders_record ''a'' =
     Inr (PyList [PyDict [(''b'', PyInt 1)], PyDict [(''b'', PyInt 2)]]) \<and>
   get_value cpython (PyDict [(''b'', PyInt 1)]) ''b'' = Inr (PyInt 1) \<and>
   get_value cpython (PyDict [(''b'', PyInt 2)]) ''b'' = Inr (PyInt 2) \<and>
   get_value cpython folders_record ''a[*].b'' = Inr (PyList [PyInt 1, PyInt 2]) \<and>
   get_value cpython folders_record ''a[*]'' =
     Inr (PyList [PyDict [(''b'', PyInt 1)], PyDict [(''b'', PyInt 2)]])"
proof -
  let ?xs = "[PyDict [(''b'', PyInt 1)], PyDict [(''b'', PyInt 2)]]"
  let ?ys = "[PyInt 1, PyInt 2]"
  have nd: "CHR ''.'' \<notin> set ''a''"
    by simp
  have fld: "priv_get cpython folders_record ''a'' = Inr (PyList ?xs)"
    by (simp add: run_defs folders_record_def)
  have e1: "get_value cpython (PyDict [(''b'', PyInt 1)]) ''b'' = Inr (PyInt 1)"
    by (simp add: run_defs)
  have e2: "get_value cpython (PyDict [(''b'', PyInt 2)]) ''b'' = Inr (PyInt 2)"
    by (simp add: run_defs)
  have each: "get_value cpython (?xs ! i) ''b'' = Inr (?ys ! i)" if "i < length ?xs" for i
  proof -
    from that have "i = 0 \<or> i = 1"
      by auto
    then show ?thesis
      using e1 e2 by auto
  qed
  have ex: "\<exists>ys. PyList ?ys = PyList ys \<and> length ys = length ?xs \<and>
      (\<forall>i<length ?xs. get_value cpython (?xs ! i) ''b'' = Inr (ys ! i))"
  proof (intro exI[of _ ?ys] conjI allI impI)
    show "PyList ?ys = PyList ?ys" ..
    show "length ?ys = length ?xs" by simp
    show "get_value cpython (?xs ! i) ''b'' = Inr (?ys ! i)" if "i < length ?xs" for i
      using that by (rule each)
  qed
  note th = fan_out_elementwise[OF nd fld, of "''b''" "PyList ?ys"]
  have "get_value cpython folders_record (''a'' @ ''[*].'' @ ''b'') = Inr (PyList ?ys)"
    using iffD2[OF conjunct1[OF th] ex] .
  moreover have "get_value cpython folders_record (''a'' @ ''[*]'') = Inr (PyList ?xs)"
    using conjunct2[OF th] .
  ultimately show ?thesis
    using nd fld e1 e2 by simp
qed

text \<open>
  Claim C7. When the field that a segment marked \<^verbatim>\<open>[]\<close> resolves is an empty
  sequence, \<^verbatim>\<open>get_value\<close> raises \<^verbatim>\<open>IndexError\<close>, whether the segment is the last of its
  path or not, and the error reaches the caller of an enclosing call: nothing on the way
  catches it.
\<close>

theorem take_first_of_empty:
  assumes "CHR ''.'' \<notin> set f" and "priv_get env r f = Inr v"
    and "v = PyList [] \<or> v = PyStr []"
  shows "get_value env r (f @ ''[]'') = Inl IndexError \<and>
         get_value env r (f @ ''[].'' @ rest) = Inl IndexError \<and>
         (CHR ''.'' \<notin> set g \<and> strip_marker g = (g, False, False) \<and> g \<noteq> [] \<and>
          priv_get env outer g = Inr r \<longrightarrow>
            get_value env outer (g @ ''.'' @ f @ ''[].'' @ rest) = Inl IndexError)"
proof -
  have sub: "subscript0 v = Inl IndexError"
    using assms(3) by (auto simp: subscript0_def)
  have a: "get_value env r (f @ ''[]'') = Inl IndexError"
    using get_value_first(1)[OF assms(1,2)] sub by simp
  have b: "get_value env r (f @ ''[].'' @ rest) = Inl IndexError"
    using get_value_first(2)[OF assms(1,2), of rest] sub by simp
  have c: "get_value env outer (g @ ''.'' @ f @ ''[].'' @ rest) = Inl IndexError"
    if "CHR ''.'' \<notin> set g" "strip_marker g = (g, False, False)" "g \<noteq> []"
      "priv_get env outer g = Inr r"
    using get_value_plain(2)[OF that, of "f @ ''[].'' @ rest"] b by simp
  from a b c show ?thesis
    by blast
qed

theorem take_first_of_empty_witness:
  "CHR ''.'' \<notin> set ''folders'' \<and>
   priv_get cpython (PyDict [(''folders'', PyList [])]) ''folders'' = Inr (PyList []) \<and>
   get_value cpython (PyDict [(''folders'', PyList [])]) ''folders[]'' = Inl IndexError \<and>
   get_value cpython (PyDict [(''folders'', PyList [])]) ''folders[].name'' =
     Inl IndexError \<and>
   get_value cpython (PyObject [(''resource'', PyDict [(''folders'', PyList [])])])
     ''resource.folders[].name'' = Inl IndexError"
proof -
  have nd: "CHR ''.'' \<notin> set ''folders''"
    by simp
  have fld: "priv_get cpython (PyDict [(''folders'', PyList [])]) ''folders'' = Inr (PyList [])"
    by (simp add: run_defs)
  have outer: "CHR ''.'' \<notin> set ''resource'' \<and>
      strip_marker ''resource'' = (''resource'', False, False) \<and> ''resource'' \<noteq> [] \<and>
      priv_get cpython (PyObject [(''resource'', PyDict [(''folders'', PyList [])])])
        ''resource'' = Inr (PyDict [(''folders'', PyList [])])"
    by (simp add: run_defs)
  show ?thesis
    using take_first_of_empty[OF nd fld, of "''name''" "''resource''"
        "PyObject [(''resource'', PyDict [(''folders'', PyList [])])]"]
      nd fld outer
    by simp
qed


subsection \<open>Attribute resolution\<close>

text \<open>
  A record that exposes the name under none of the three attribute spellings and has no
  \<^verbatim>\<open>get\<close> method makes \<^verbatim>\<open>_get\<close> raise \<^verbatim>\<open>KeyError\<close>.
\<close>

lemma priv_get_without_get:
  assumes "getattr env obj attr = None" and "getattr env obj (underscore env attr) = None"
    and "camelize env attr False = Inr c" and "getattr env obj c = None"
    and "\<not> has_get env obj"
  shows "priv_get env obj attr = Inl KeyError"
  using assms
  by (cases obj) (simp_all add: priv_get_def priv_get_key_def call_get_def has_get_def)

text \<open>
  Claim C5. \<^verbatim>\<open>_get\<close> tries the exact name as an attribute, then the underscored name,
  then the camelized name, then the original name as a key, and the first that succeeds
  gives the result: a value found under an earlier spelling is returned whatever the later
  ones would give, and a value found under a later one is returned when the earlier ones
  fail. So a record that exposes the field under any one of the four gets that value
  back.
\<close>

theorem resolution_order:
  "(getattr env obj attr = Some v \<longrightarrow> priv_get env obj attr = Inr v) \<and>
   (getattr env obj attr = None \<and> getattr env obj (underscore env attr) = Some v \<longrightarrow>
      priv_get env obj attr = Inr v) \<and>
   (getattr env obj attr = None \<and> getattr env obj (underscore env attr) = None \<and>
    camelize env attr False = Inr c \<and> getattr env obj c = Some v \<longrightarrow>
      priv_get env obj attr = Inr v) \<and>
   (getattr env (PyDict kv) attr = None \<and>
    getattr env (PyDict kv) (underscore env attr) = None \<and>
    camelize env attr False = Inr c \<and> getattr env (PyDict kv) c = None \<and>
    map_of kv attr = Some v \<longrightarrow>
      priv_get env (PyDict kv) attr = Inr v)"
  by (simp add: priv_get_def priv_get_key_def call_get_def)

theorem resolution_order_witness:
  "getattr cpython (PyObject [(''resourceName'', PyInt 7), (''resource_name'', PyInt 8)])
     ''resourceName'' = Some (PyInt 7) \<and>
   priv_get cpython (PyObject [(''resourceName'', PyInt 7), (''resource_name'', PyInt 8)])
     ''resourceName'' = Inr (PyInt 7) \<and>
   getattr cpython (PyObject [(''resource_name'', PyInt 7)]) ''resourceName'' = None \<and>
   underscore cpython ''resourceName'' = ''resource_name'' \<and>
   priv_get cpython (PyObject [(''resource_name'', PyInt 7)]) ''resourceName'' =
     Inr (PyInt 7) \<and>
   getattr cpython (PyObject [(''resourceName'', PyInt 7)]) ''resource_name'' = None \<and>
   camelize cpython ''resource_name'' False = Inr ''resourceName'' \<and>
   priv_get cpython (PyObject [(''resourceName'', PyInt 7)]) ''resource_name'' =
     Inr (PyInt 7) \<and>
   getattr cpython (PyDict [(''resourceName'', PyInt 7)]) ''resourceName'' = None \<and>
   getattr cpython (PyDict [(''resourceName'', PyInt 7)]) ''resource_name'' = None \<and>
   priv_get cpython (PyDict [(''resourceName'', PyInt 7)]) ''resourceName'' = Inr (PyInt 7)"
proof -
  have u: "underscore cpython ''resourceName'' = ''resource_name''"
    by (simp add: run_defs)
  have u': "underscore cpython ''resource_name'' = ''resource_name''"
    by (simp add: run_defs)
  have c: "camelize cpython ''resource_name'' False = Inr ''resourceName''"
    by (simp add: run_defs)
  have c': "camelize cpython ''resourceName'' False = Inr ''resourceName''"
    by (simp add: run_defs)
  have g1: "getattr cpython (PyObject [(''resourceName'', PyInt 7), (''resource_name'', PyInt 8)])
      ''resourceName'' = Some (PyInt 7)"
    by (simp add: getattr_def)
  have g2: "getattr cpython (PyObject [(''resource_name'', PyInt 7)]) ''resourceName'' = None \<and>
      getattr cpython (PyObject [(''resource_name'', PyInt 7)]) ''resource_name'' =
        Some (PyInt 7)"
    by (simp add: getattr_def)
  have g3: "getattr cpython (PyObject [(''resourceName'', PyInt 7)]) ''resource_name'' = None \<and>
      getattr cpython (PyObject [(''resourceName'', PyInt 7)]) ''resourceName'' =
        Some (PyInt 7)"
    by (simp add: getattr_def)
  have g4: "getattr cpython (PyDict [(''resourceName'', PyInt 7)]) ''resourceName'' = None \<and>
      getattr cpython (PyDict [(''resourceName'', PyInt 7)]) ''resource_name'' = None \<and>
      map_of [(''resourceName'', PyInt 7)] ''resourceName'' = Some (PyInt 7)"
    by (simp add: getattr_def cpython_def cpython_attr_def dict_names_def)
  have r1: "priv_get cpython (PyObject [(''resourceName'', PyInt 7), (''resource_name'', PyInt 8)])
      ''resourceName'' = Inr (PyInt 7)"
    using resolution_order[of cpython
        "PyObject [(''resourceName'', PyInt 7), (''resource_name'', PyInt 8)]"
        "''resourceName''" "PyInt 7"] g1
    by blast
  have r2: "priv_get cpython (PyObject [(''resource_name'', PyInt 7)]) ''resourceName'' =
      Inr (PyInt 7)"
    using resolution_order[of cpython "PyObject [(''resource_name'', PyInt 7)]"
        "''resourceName''" "PyInt 7"] g2 u
    by simp
  have r3: "priv_get cpython (PyObject [(''resourceName'', PyInt 7)]) ''resource_name'' =
      Inr (PyInt 7)"
    using resolution_order[of cpython "PyObject [(''resourceName'', PyInt 7)]"
        "''resource_name''" "PyInt 7" "''resourceName''"] g3 u' c
    by simp
  have r4: "priv_get cpython (PyDict [(''resourceName'', PyInt 7)]) ''resourceName'' =
      Inr (PyInt 7)"
    using resolution_order[of cpython _ "''resourceName''" "PyInt 7" "''resourceName''"
        "[(''resourceName'', PyInt 7)]"] g4 u c'
    by simp
  show ?thesis
    using u c g1 g2 g3 g4 r1 r2 r3 r4 by simp
qed

text \<open>
  Claim C3. The claim says that a field exposed under none of the four strategies makes
  \<^verbatim>\<open>_get\<close>, and so \<^verbatim>\<open>get_value\<close>, raise \<^verbatim>\<open>KeyError\<close>; the docstrings of both
  functions say the same. The fourth attempt is \<^verbatim>\<open>obj.get(attr)\<close>, and on a mapping that
  call answers \<^verbatim>\<open>None\<close> for an absent key: on the record \<^verbatim>\<open>{"name": "vm-1"}\<close> the field
  \<^verbatim>\<open>owner\<close> is found by no attribute spelling and is no key, and both functions return
  \<^verbatim>\<open>None\<close>.
\<close>

theorem absent_key_returns_none:
  "getattr cpython named_record ''owner'' = None \<and>
   getattr cpython named_record (underscore cpython ''owner'') = None \<and>
   camelize cpython ''owner'' False = Inr ''owner'' \<and>
   map_of [(''name'', PyStr ''vm-1'')] ''owner'' = None \<and>
   priv_get cpython named_record ''owner'' = Inr PyNone \<and>
   get_value cpython named_record ''owner'' = Inr PyNone"
  by (simp add: run_defs named_record_def)

text \<open>
  Claim C10. On a mapping, a field name that no attribute spelling finds and that is not
  a key resolves to \<^verbatim>\<open>None\<close>, in \<^verbatim>\<open>_get\<close> and, as a path of one plain segment, in
  \<^verbatim>\<open>get_value\<close>; and whenever \<^verbatim>\<open>_get\<close> raises \<^verbatim>\<open>KeyError\<close>, the record has no
  \<^verbatim>\<open>get\<close> method. (The conversion to camel case is assumed to return a name.)
\<close>

theorem mapping_absent_key_is_none:
  assumes "camelize env attr False = Inr c"
  shows "(getattr env (PyDict kv) attr = None \<and>
          getattr env (PyDict kv) (underscore env attr) = None \<and>
          getattr env (PyDict kv) c = None \<and> map_of kv attr = None \<longrightarrow>
            priv_get env (PyDict kv) attr = Inr PyNone \<and>
            (CHR ''.'' \<notin> set attr \<and> strip_marker attr = (attr, False, False) \<and>
             attr \<noteq> [] \<longrightarrow> get_value env (PyDict kv) attr = Inr PyNone)) \<and>
         (priv_get env obj attr = Inl KeyError \<longrightarrow> \<not> has_get env obj)"
proof -
  have a: "priv_get env (PyDict kv) attr = Inr PyNone"
    if "getattr env (PyDict kv) attr = None"
      "getattr env (PyDict kv) (underscore env attr) = None"
      "getattr env (PyDict kv) c = None" "map_of kv attr = None"
    using that assms by (simp add: priv_get_def priv_get_key_def call_get_def)
  have b: "get_value env (PyDict kv) attr = Inr PyNone"
    if "priv_get env (PyDict kv) attr = Inr PyNone" "CHR ''.'' \<notin> set attr"
      "strip_marker attr = (attr, False, False)" "attr \<noteq> []"
    using get_value_plain(1)[OF that(2,3,4,1)] .
  have c: "\<not> has_get env obj" if "priv_get env obj attr = Inl KeyError"
    using that assms
    by (cases obj)
       (auto simp: priv_get_def priv_get_key_def call_get_def has_get_def
             split: option.splits if_splits)
  from a b c show ?thesis
    by blast
qed

theorem mapping_absent_key_is_none_witness:
  "camelize cpython ''owner'' False = Inr ''owner'' \<and>
   getattr cpython (PyDict [(''name'', PyStr ''vm-1'')]) ''owner'' = None \<and>
   map_of [(''name'', PyStr ''vm-1'')] ''owner'' = None \<and>
   priv_get cpython (PyDict [(''name'', PyStr ''vm-1'')]) ''owner'' = Inr PyNone \<and>
   get_value cpython (PyDict [(''name'', PyStr ''vm-1'')]) ''owner'' = Inr PyNone \<and>
   priv_get cpython (PyObject [(''name'', PyStr ''vm-1'')]) ''owner'' = Inl KeyError \<and>
   \<not> has_get cpython (PyObject [(''name'', PyStr ''vm-1'')])"
proof -
  have c: "camelize cpython ''owner'' False = Inr ''owner''"
    by (simp add: run_defs)
  have u: "underscore cpython ''owner'' = ''owner''"
    by (simp add: run_defs)
  have g: "getattr cpython (PyDict [(''name'', PyStr ''vm-1'')]) ''owner'' = None \<and>
      map_of [(''name'', PyStr ''vm-1'')] ''owner'' = None"
    by (simp add: getattr_def cpython_def cpython_attr_def dict_names_def)
  have p: "CHR ''.'' \<notin> set ''owner'' \<and> strip_marker ''owner'' = (''owner'', False, False) \<and>
      ''owner'' \<noteq> []"
    by (simp add: strip_marker_def endswith_def)
  have k: "priv_get cpython (PyObject [(''name'', PyStr ''vm-1'')]) ''owner'' = Inl KeyError"
    by (simp add: run_defs)
  show ?thesis
    using mapping_absent_key_is_none[OF c, of "[(''name'', PyStr ''vm-1'')]"
        "PyObject [(''name'', PyStr ''vm-1'')]"] c u g p k
    by simp
qed


subsection \<open>Parent resolution\<close>

text \<open>
  Claim C9. When the walk from the resource ends at an asset of type Project,
  \<^verbatim>\<open>FindingParentInfo\<close> is built with that type, with the value of the asset's
  \<^verbatim>\<open>projectNumber\<close> property as its id, and with the asset's recorded owners, in their
  order, as its owners.
\<close>

theorem project_parent_info:
  assumes "get_asset resource gcp_org_id = Inr a0"
    and "climb get_asset gcp_org_id a0 = Some (Inr a)"
    and "resource_type (security_center_properties a) = ''google.cloud.resourcemanager.Project''"
  shows "FindingParentInfo_init get_asset resource gcp_org_id =
           Some (Inr \<lparr>displayName = resource_display_name (security_center_properties a),
                      type_ = ''google.cloud.resourcemanager.Project'',
                      resourceName = resource_name (security_center_properties a),
                      idNum = dict_get (resource_properties a) ''projectNumber'',
                      owners = map PyStr (resource_owners (security_center_properties a))\<rparr>)"
  using assms
  by (simp add: FindingParentInfo_init_def get_parent_info_def extract_parent_info_project_def)

theorem project_parent_info_witness:
  "lookup_in [instance_asset ''//cloudresourcemanager.googleapis.com/projects/123456'',
              project_asset]
     ''//compute.googleapis.com/projects/p/zones/z/instances/vm-1'' ''1'' =
     Inr (instance_asset ''//cloudresourcemanager.googleapis.com/projects/123456'') \<and>
   climb
     (lookup_in [instance_asset ''//cloudresourcemanager.googleapis.com/projects/123456'',
                 project_asset])
     ''1'' (instance_asset ''//cloudresourcemanager.googleapis.com/projects/123456'') =
     Some (Inr project_asset) \<and>
   FindingParentInfo_init
     (lookup_in [instance_asset ''//cloudresourcemanager.googleapis.com/projects/123456'',
                 project_asset])
     ''//compute.googleapis.com/projects/p/zones/z/instances/vm-1'' ''1'' =
     Some (Inr \<lparr>displayName = ''my-project'',
                type_ = ''google.cloud.resourcemanager.Project'',
                resourceName = ''//cloudresourcemanager.googleapis.com/projects/123456'',
                idNum = PyInt 123456,
                owners = [PyStr ''user:alice@example.com'', PyStr ''user:bob@example.com'']\<rparr>)"
proof -
  let ?inst = "instance_asset ''//cloudresourcemanager.googleapis.com/projects/123456''"
  let ?svc = "lookup_in [?inst, project_asset]"
  have first: "?svc ''//compute.googleapis.com/projects/p/zones/z/instances/vm-1'' ''1'' =
      Inr ?inst"
    by (simp add: lookup_in_def instance_asset_def)
  have "climb_within (Suc 0) ?svc ''1'' ?inst = Some (Inr project_asset)"
    by (simp add: lookup_in_def instance_asset_def project_asset_def parent_types_def)
  then have walk: "climb ?svc ''1'' ?inst = Some (Inr project_asset)"
    by (rule climb_within_climb)
  have ty: "resource_type (security_center_properties project_asset) =
      ''google.cloud.resourcemanager.Project''"
    by (simp add: project_asset_def)
  show ?thesis
    using project_parent_info[OF first walk ty] first walk
    by (simp add: project_asset_def dict_get_def)
qed

text \<open>
  Claim C2. The claim says that at a Folder the owners are the members of the bindings
  for the roles folderAdmin and owner, without duplicates, and the empty collection when
  no binding matches. \<^verbatim>\<open>_extract_parent_info_folder\<close> never assigns its local
  \<^verbatim>\<open>owners\<close> before using it, so every call that gets as far raises
  \<^verbatim>\<open>UnboundLocalError\<close>: for the two bindings of the claim, extracted alone or reached
  from an instance below the folder, and for a policy without bindings.
\<close>

theorem folder_owners_unbound:
  "extract_parent_info_folder folder_asset = Inl UnboundLocalError \<and>
   FindingParentInfo_init
     (lookup_in [instance_asset ''//cloudresourcemanager.googleapis.com/folders/456'',
                 folder_asset])
     ''//compute.googleapis.com/projects/p/zones/z/instances/vm-1'' ''1'' =
     Some (Inl UnboundLocalError) \<and>
   extract_parent_info_folder (folder_asset\<lparr>iam_policy := \<lparr>policy_blob = Inr (PyDict [])\<rparr>\<rparr>) =
     Inl UnboundLocalError"
proof -
  let ?inst = "instance_asset ''//cloudresourcemanager.googleapis.com/folders/456''"
  let ?svc = "lookup_in [?inst, folder_asset]"
  have a: "extract_parent_info_folder folder_asset = Inl UnboundLocalError"
    by (simp add: extract_parent_info_folder_def folder_asset_def folder_id_num_def
        dict_get_def truthy_def py_iter_def subscript_key_def owner_roles_def read_local_def)
  have "climb_within (Suc 0) ?svc ''1'' ?inst = Some (Inr folder_asset)"
    by (simp add: lookup_in_def instance_asset_def folder_asset_def parent_types_def)
  then have "climb ?svc ''1'' ?inst = Some (Inr folder_asset)"
    by (rule climb_within_climb)
  moreover have "?svc ''//compute.googleapis.com/projects/p/zones/z/instances/vm-1'' ''1'' =
      Inr ?inst"
    by (simp add: lookup_in_def instance_asset_def)
  moreover have "resource_type (security_center_properties folder_asset) =
      ''google.cloud.resourcemanager.Folder''"
    by (simp add: folder_asset_def)
  ultimately have b: "FindingParentInfo_init ?svc
      ''//compute.googleapis.com/projects/p/zones/z/instances/vm-1'' ''1'' =
      Some (Inl UnboundLocalError)"
    using a by (simp add: FindingParentInfo_init_def get_parent_info_def)
  have c: "extract_parent_info_folder
      (folder_asset\<lparr>iam_policy := \<lparr>policy_blob = Inr (PyDict [])\<rparr>\<rparr>) = Inl UnboundLocalError"
    by (simp add: extract_parent_info_folder_def folder_asset_def folder_id_num_def
        dict_get_def truthy_def read_local_def)
  from a b c show ?thesis
    by simp
qed

text \<open>
  Claim C8, as the code has it. The walk has no depth bound and no error of its own. It
  returns exactly when some number of parent lookups reaches an asset of type Project,
  Folder or Organization, which it returns, or a lookup that fails, whose exception it
  passes on. Where neither happens, as on a cycle, it does not return.
\<close>

theorem climb_returns_iff_bounded:
  "((climb get_asset gcp_org_id a = Some r) =
      (\<exists>n. climb_within n get_asset gcp_org_id a = Some r)) \<and>
   (climb get_asset gcp_org_id a = Some (Inr b) \<longrightarrow>
      resource_type (security_center_properties b) \<in> set parent_types) \<and>
   (climb get_asset gcp_org_id a = Some (Inl e) \<longrightarrow>
      (\<exists>name. get_asset name gcp_org_id = Inl e))"
proof -
  have "(climb get_asset gcp_org_id a = Some r) =
      (\<exists>n. climb_within n get_asset gcp_org_id a = Some r)"
    using climb_climb_within climb_within_climb by blast
  moreover have "resource_type (security_center_properties b) \<in> set parent_types"
    if "climb get_asset gcp_org_id a = Some (Inr b)"
    using climb_climb_within[OF that] climb_within_parent_type by blast
  moreover have "\<exists>name. get_asset name gcp_org_id = Inl e"
    if "climb get_asset gcp_org_id a = Some (Inl e)"
    using climb_climb_within[OF that] climb_within_error_origin by blast
  ultimately show ?thesis
    by blast
qed

theorem climb_returns_iff_bounded_witness:
  "climb_within 1
     (lookup_in [instance_asset ''//cloudresourcemanager.googleapis.com/projects/123456'',
                 project_asset])
     ''1'' (instance_asset ''//cloudresourcemanager.googleapis.com/projects/123456'') =
     Some (Inr project_asset) \<and>
   climb
     (lookup_in [instance_asset ''//cloudresourcemanager.googleapis.com/projects/123456'',
                 project_asset])
     ''1'' (instance_asset ''//cloudresourcemanager.googleapis.com/projects/123456'') =
     Some (Inr project_asset) \<and>
   resource_type (security_center_properties project_asset) \<in> set parent_types \<and>
   climb (lookup_in []) ''1''
     (instance_asset ''//cloudresourcemanager.googleapis.com/projects/123456'') =
     Some (Inl ValueError) \<and>
   lookup_in [] ''//cloudresourcemanager.googleapis.com/projects/123456'' ''1'' =
     Inl ValueError"
proof -
  let ?inst = "instance_asset ''//cloudresourcemanager.googleapis.com/projects/123456''"
  let ?svc = "lookup_in [?inst, project_asset]"
  have w: "climb_within 1 ?svc ''1'' ?inst = Some (Inr project_asset)"
    by (simp add: lookup_in_def instance_asset_def project_asset_def parent_types_def)
  have w': "climb_within 1 (lookup_in []) ''1'' ?inst = Some (Inl ValueError)"
    by (simp add: lookup_in_def instance_asset_def parent_types_def)
  note th = climb_returns_iff_bounded[of ?svc "''1''" ?inst "Inr project_asset" project_asset]
  note th' = climb_returns_iff_bounded[of "lookup_in []" "''1''" ?inst "Inl ValueError"]
  have ex: "\<exists>n. climb_within n ?svc ''1'' ?inst = Some (Inr project_asset)"
    by (rule exI[where x = 1]) (rule w)
  have ex': "\<exists>n. climb_within n (lookup_in []) ''1'' ?inst = Some (Inl ValueError)"
    by (rule exI[where x = 1]) (rule w')
  have c: "climb ?svc ''1'' ?inst = Some (Inr project_asset)"
    using iffD2[OF conjunct1[OF th] ex] .
  have c': "climb (lookup_in []) ''1'' ?inst = Some (Inl ValueError)"
    using iffD2[OF conjunct1[OF th'] ex'] .
  have t: "resource_type (security_center_properties project_asset) \<in> set parent_types"
    using mp[OF conjunct1[OF conjunct2[OF th]] c] .
  have l: "lookup_in [] ''//cloudresourcemanager.googleapis.com/projects/123456'' ''1'' =
      Inl ValueError"
    by (simp add: lookup_in_def)
  show ?thesis
    using w c t c' l by (intro conjI) assumption+
qed

text \<open>
  The claim C8 itself fails: on an instance that is its own parent the walk, and with it
  the construction of \<^verbatim>\<open>FindingParentInfo\<close>, does not return, and no error is raised.
\<close>

theorem cyclic_hierarchy_never_returns:
  "FindingParentInfo_init
     (lookup_in [instance_asset ''//compute.googleapis.com/projects/p/zones/z/instances/vm-1''])
     ''//compute.googleapis.com/projects/p/zones/z/instances/vm-1'' ''1'' = None"
proof -
  let ?inst = "instance_asset ''//compute.googleapis.com/projects/p/zones/z/instances/vm-1''"
  let ?svc = "lookup_in [?inst]"
  have stuck: "climb_within n ?svc ''1'' ?inst = None" for n
    by (induction n) (simp_all add: lookup_in_def instance_asset_def parent_types_def)
  have "climb ?svc ''1'' ?inst = None"
  proof (cases "climb ?svc ''1'' ?inst")
    case None
    then show ?thesis .
  next
    case (Some r)
    then obtain n where "climb_within n ?svc ''1'' ?inst = Some r"
      using climb_climb_within by blast
    then show ?thesis
      by (simp add: stuck)
  qed
  moreover have "?svc ''//compute.googleapis.com/projects/p/zones/z/instances/vm-1'' ''1'' =
      Inr ?inst"
    by (simp add: lookup_in_def instance_asset_def)
  ultimately show ?thesis
    by (simp add: FindingParentInfo_init_def get_parent_info_def)
qed

end
